theory Spec2Isabelle
  imports Main "HOL-Library.Sublist" "HOL-Library.AList" "HOL-Library.Word"
begin

unbundle bit_operations_syntax

section \<open>Protocol errors and Python exceptions\<close>

text \<open>
  The remote file-management client (\<^verbatim>\<open>ops.pebble\<close>) reports failures as exception objects.
  \<^verbatim>\<open>PathError\<close> carries a \<^verbatim>\<open>kind\<close> and a \<^verbatim>\<open>message\<close>, \<^verbatim>\<open>APIError\<close> a status \<^verbatim>\<open>code\<close> and a
  \<^verbatim>\<open>message\<close>, \<^verbatim>\<open>ConnectionError\<close> a message. None of the three classes is a subclass of another.
\<close>

datatype pebble_error =
    PathError string string
  | APIError int string
  | ConnectionError string

text \<open>
  The exceptions raised by the package. The builtin \<^verbatim>\<open>OSError\<close> subclasses are built by the
  source as \<^verbatim>\<open>Cls(errno, os.strerror(errno), msg)\<close>: the class fixes errno and strerror, so the
  model keeps the file name argument \<^verbatim>\<open>msg\<close> and the cause given by \<^verbatim>\<open>raise ... from\<close>
  (\<open>None\<close> when there is none). \<open>DirectoryNotEmptyError\<close> stands for
  \<^verbatim>\<open>OSError(errno.ENOTEMPTY, ...)\<close>. \<open>PebbleError\<close> is a protocol error that reaches the caller as
  it is.
\<close>

datatype exc =
    FileExistsError string "pebble_error option"
  | FileNotFoundError string "pebble_error option"
  | IsADirectoryError string "pebble_error option"
  | NotADirectoryError string "pebble_error option"
  | PermissionError string "pebble_error option"
  | DirectoryNotEmptyError string "pebble_error option"
  | LookupError string "pebble_error option"
  | UnicodeEncodeError
  | ValueError string
  | PebbleError pebble_error

subsection \<open>\<^verbatim>\<open>_errors.py\<close>\<close>

text \<open>
  A function of the source that either raises or returns \<^verbatim>\<open>None\<close> is a function into
  \<open>exc option\<close>: \<open>Some e\<close> when it raises \<open>e\<close>. Python's \<^verbatim>\<open>sub in s\<close> on strings is
  \<^const>\<open>sublist\<close> (a contiguous run).
\<close>

definition raise_file_exists :: "string \<Rightarrow> pebble_error option \<Rightarrow> exc" where
  "raise_file_exists msg cause = FileExistsError msg cause"

definition raise_if_matches_file_exists :: "pebble_error \<Rightarrow> string \<Rightarrow> exc option" where
  "raise_if_matches_file_exists error msg =
     (case error of
        PathError kind message \<Rightarrow>
          if kind = ''generic-file-error'' \<and> sublist ''file exists'' message
          then Some (raise_file_exists msg (Some error)) else None
      | _ \<Rightarrow> None)"

definition raise_file_not_found :: "string \<Rightarrow> pebble_error option \<Rightarrow> exc" where
  "raise_file_not_found msg cause = FileNotFoundError msg cause"

definition raise_if_matches_file_not_found :: "pebble_error \<Rightarrow> string \<Rightarrow> exc option" where
  "raise_if_matches_file_not_found error msg =
     (case error of
        APIError code message \<Rightarrow>
          if code = 404 then Some (raise_file_not_found msg (Some error)) else None
      | PathError kind message \<Rightarrow>
          if kind = ''not-found'' then Some (raise_file_not_found msg (Some error)) else None
      | _ \<Rightarrow> None)"

definition raise_if_matches_is_a_directory :: "pebble_error \<Rightarrow> string \<Rightarrow> exc option" where
  "raise_if_matches_is_a_directory error msg =
     (case error of
        PathError kind message \<Rightarrow>
          if kind = ''generic-file-error'' \<and> sublist ''can only read a regular file'' message
          then Some (IsADirectoryError msg (Some error)) else None
      | _ \<Rightarrow> None)"

definition raise_if_matches_lookup :: "pebble_error \<Rightarrow> string \<Rightarrow> exc option" where
  "raise_if_matches_lookup error msg =
     (case error of
        PathError kind message \<Rightarrow>
          if kind = ''generic-file-error'' \<and> sublist ''cannot look up user and group'' message
          then Some (LookupError msg (Some error)) else None
      | _ \<Rightarrow> None)"

definition matches_not_a_directory :: "pebble_error \<Rightarrow> bool" where
  "matches_not_a_directory error =
     (case error of
        PathError kind message \<Rightarrow>
          kind = ''generic-file-error'' \<and> sublist ''not a directory'' message
      | _ \<Rightarrow> False)"

definition raise_not_a_directory :: "string \<Rightarrow> pebble_error option \<Rightarrow> exc" where
  "raise_not_a_directory msg cause = NotADirectoryError msg cause"

text \<open>The static methods \<^verbatim>\<open>Permission.matches\<close> and \<^verbatim>\<open>Permission.exception\<close>.\<close>

definition Permission_matches :: "pebble_error \<Rightarrow> bool" where
  "Permission_matches error =
     (case error of PathError kind message \<Rightarrow> kind = ''permission-denied'' | _ \<Rightarrow> False)"

definition Permission_exception :: "string \<Rightarrow> exc" where
  "Permission_exception msg = PermissionError msg None"

text \<open>
  Modelled from the spec: \<^verbatim>\<open>raise_if_matches_directory_not_empty\<close> and
  \<^verbatim>\<open>raise_if_matches_permission\<close>, which \<^verbatim>\<open>_remove_container_path\<close> calls, are not in the
  \<^verbatim>\<open>_errors.py\<close> at hand. Directory-not-empty is a sub-case of the generic-file-error category,
  told apart by a substring of the message like its siblings above; permission-denied is a
  category of its own, matched as \<^const>\<open>Permission_matches\<close> does. Both raise from the
  protocol error.
\<close>

definition raise_if_matches_directory_not_empty :: "pebble_error \<Rightarrow> string \<Rightarrow> exc option" where
  "raise_if_matches_directory_not_empty error msg =
     (case error of
        PathError kind message \<Rightarrow>
          if kind = ''generic-file-error'' \<and> sublist ''directory not empty'' message
          then Some (DirectoryNotEmptyError msg (Some error)) else None
      | _ \<Rightarrow> None)"

definition raise_if_matches_permission :: "pebble_error \<Rightarrow> string \<Rightarrow> exc option" where
  "raise_if_matches_permission error msg =
     (if Permission_matches error then Some (PermissionError msg (Some error)) else None)"

section \<open>Sources of content: \<^verbatim>\<open>_as_bytes\<close>\<close>

text \<open>
  A \<^verbatim>\<open>bytes\<close> object is a list of bytes, a \<^verbatim>\<open>str\<close> a list of Unicode code points. An object
  with a \<^verbatim>\<open>read()\<close> method is \<open>Reader v\<close>, where \<open>v\<close> is the value that \<^verbatim>\<open>read()\<close> returns.
\<close>

type_synonym bytes = "8 word list"

datatype source = Bytes bytes | Str "nat list" | Reader source

text \<open>
  \<^verbatim>\<open>str.encode()\<close> is UTF-8 with strict error handling: a surrogate code point raises
  \<^verbatim>\<open>UnicodeEncodeError\<close>. A \<^verbatim>\<open>str\<close> holds no number above \<^verbatim>\<open>0x10FFFF\<close>; the model rejects one
  in the same way.
\<close>

definition encode_codepoint :: "nat \<Rightarrow> exc + bytes" where
  "encode_codepoint c =
     (if c < 0x80 then Inr [of_nat c]
      else if c < 0x800 then Inr [of_nat (0xC0 + c div 64), of_nat (0x80 + c mod 64)]
      else if 0xD800 \<le> c \<and> c < 0xE000 then Inl UnicodeEncodeError
      else if c < 0x10000 then
        Inr [of_nat (0xE0 + c div 4096), of_nat (0x80 + c div 64 mod 64), of_nat (0x80 + c mod 64)]
      else if c < 0x110000 then
        Inr [of_nat (0xF0 + c div 262144), of_nat (0x80 + c div 4096 mod 64),
             of_nat (0x80 + c div 64 mod 64), of_nat (0x80 + c mod 64)]
      else Inl UnicodeEncodeError)"

fun encode :: "nat list \<Rightarrow> exc + bytes" where
  "encode [] = Inr []"
| "encode (c # cs) =
     (case encode_codepoint c of
        Inl e \<Rightarrow> Inl e
      | Inr b \<Rightarrow> (case encode cs of Inl e \<Rightarrow> Inl e | Inr bs \<Rightarrow> Inr (b @ bs)))"

text \<open>A string can be encoded when none of its code points is a surrogate.\<close>

definition encodable :: "nat list \<Rightarrow> bool" where
  "encodable t = list_all (\<lambda>c. c < 0xD800 \<or> (0xE000 \<le> c \<and> c < 0x110000)) t"

fun as_bytes :: "source \<Rightarrow> exc + bytes" where
  "as_bytes (Bytes b) = Inr b"
| "as_bytes (Str t) = encode t"
| "as_bytes (Reader v) = as_bytes v"

section \<open>\<^verbatim>\<open>ensure_contents\<close>\<close>

text \<open>The fields of \<^verbatim>\<open>pebble.FileInfo\<close> that \<^verbatim>\<open>ensure_contents\<close> reads.\<close>

record file_info =
  permissions :: int
  user :: "string option"
  group :: "string option"

text \<open>
  \<^verbatim>\<open>ensure_contents\<close> sees its path through four calls: \<^verbatim>\<open>_get_fileinfo(path)\<close>,
  \<^verbatim>\<open>path.read_bytes()\<close>, \<^verbatim>\<open>path.parent.mkdir(parents=True, exist_ok=True)\<close> and
  \<^verbatim>\<open>path.write_bytes(source, mode=mode, user=user, group=group)\<close>. A path object is the record
  of these four, each a function of the state \<open>'s\<close> of the filesystem it lives on. A call that
  raises returns \<open>Inl\<close>, and the state it leaves behind is not modelled. The two queries do
  not change the state.
\<close>

record 's path_handle =
  get_fileinfo :: "'s \<Rightarrow> exc + file_info"
  read_bytes :: "'s \<Rightarrow> exc + bytes"
  parent_mkdir :: "'s \<Rightarrow> exc + 's"
  write_bytes :: "'s \<Rightarrow> bytes \<Rightarrow> int \<Rightarrow> string option \<Rightarrow> string option \<Rightarrow> exc + nat \<times> 's"

text \<open>\<^verbatim>\<open>except FileNotFoundError\<close> catches every instance of that class.\<close>

fun isinstance_FileNotFoundError :: "exc \<Rightarrow> bool" where
  "isinstance_FileNotFoundError (FileNotFoundError msg cause) = True"
| "isinstance_FileNotFoundError e = False"

text \<open>The last three lines of \<^verbatim>\<open>ensure_contents\<close>: create the parents, write, return \<^verbatim>\<open>True\<close>.\<close>

definition mkdir_and_write ::
  "'s path_handle \<Rightarrow> bytes \<Rightarrow> int \<Rightarrow> string option \<Rightarrow> string option \<Rightarrow> 's \<Rightarrow> exc + bool \<times> 's" where
  "mkdir_and_write path data mode usr grp s =
     (case parent_mkdir path s of
        Inl e \<Rightarrow> Inl e
      | Inr s1 \<Rightarrow>
          (case write_bytes path s1 data mode usr grp of
             Inl e \<Rightarrow> Inl e
           | Inr (n, s2) \<Rightarrow> Inr (True, s2)))"

text \<open>
  Both versions of \<^verbatim>\<open>_functions.py\<close> have the same body after the first statement, which
  only wraps a \<^verbatim>\<open>str\<close> or \<^verbatim>\<open>os.PathLike\<close> in a \<^verbatim>\<open>LocalPath\<close>. Python's \<^verbatim>\<open>and\<close> evaluates
  \<^verbatim>\<open>path.read_bytes()\<close> only when the three comparisons before it hold.
\<close>

definition ensure_contents ::
  "'s path_handle \<Rightarrow> source \<Rightarrow> int \<Rightarrow> string option \<Rightarrow> string option \<Rightarrow> 's \<Rightarrow> exc + bool \<times> 's" where
  "ensure_contents path source mode usr grp s =
     (case as_bytes source of
        Inl e \<Rightarrow> Inl e
      | Inr data \<Rightarrow>
          (case get_fileinfo path s of
             Inl e \<Rightarrow>
               if isinstance_FileNotFoundError e then mkdir_and_write path data mode usr grp s
               else Inl e
           | Inr info \<Rightarrow>
               if permissions info = mode
                  \<and> (usr = None \<or> user info = usr)
                  \<and> (grp = None \<or> group info = grp)
               then (case read_bytes path s of
                       Inl e \<Rightarrow> Inl e
                     | Inr current \<Rightarrow>
                         if current = data then Inr (False, s)
                         else mkdir_and_write path data mode usr grp s)
               else mkdir_and_write path data mode usr grp s))"

section \<open>A filesystem\<close>

text \<open>
  A path is the list of its components below the root, so \<open>[]\<close> is \<^verbatim>\<open>/\<close>. A filesystem is a
  finite table from paths to nodes, together with the names of the users and groups it knows
  and the identity of the caller. The root is an entry of the table like any other, and the
  table is meant to hold a tree: the parent of an entry is a directory of the table. Symbolic
  links and access rights of the caller are not modelled: every node can be read, written and
  removed by the caller.
\<close>

type_synonym path = "string list"

datatype node = File file_info bytes | Dir file_info

record machine =
  files :: "(path \<times> node) list"
  users :: "string list"
  groups :: "string list"
  euser :: string
  egroup :: string

definition node_at :: "machine \<Rightarrow> path \<Rightarrow> node option" where
  "node_at s p = map_of (files s) p"

fun info_of :: "node \<Rightarrow> file_info" where
  "info_of (File info data) = info"
| "info_of (Dir info) = info"

definition posix :: "path \<Rightarrow> string" where
  "posix p = (if p = [] then ''/'' else concat (map (\<lambda>x. ''/'' @ x) p))"

text \<open>\<^verbatim>\<open>path.parent\<close>: the parent of the root is the root.\<close>

definition parent :: "path \<Rightarrow> path" where
  "parent p = butlast p"

text \<open>
  A path lies below a file when one of its proper ancestors is a node that is not a directory.
  The operating system then answers a call on the path with \<^verbatim>\<open>ENOTDIR\<close>, which Python raises
  as \<^verbatim>\<open>NotADirectoryError\<close>, and not with \<^verbatim>\<open>ENOENT\<close>.
\<close>

definition below_file :: "machine \<Rightarrow> path \<Rightarrow> bool" where
  "below_file s p =
     list_ex (\<lambda>q. case node_at s q of Some (File info data) \<Rightarrow> True | _ \<Rightarrow> False)
       (butlast (prefixes p))"

text \<open>The error of a call on a path that has no entry.\<close>

definition missing :: "machine \<Rightarrow> path \<Rightarrow> exc" where
  "missing s p =
     (if below_file s p then NotADirectoryError (posix p) None
      else FileNotFoundError (posix p) None)"

text \<open>
  The permission bits of a mode, \<^verbatim>\<open>stat.S_IMODE(mode)\<close>, that is \<^verbatim>\<open>mode & 0o7777\<close>: what a
  file keeps of the mode it is given and what a metadata query reports.
\<close>

definition S_IMODE :: "int \<Rightarrow> int" where
  "S_IMODE mode = mode AND 4095"

definition has_children :: "machine \<Rightarrow> path \<Rightarrow> bool" where
  "has_children s p = list_ex (\<lambda>(q, n). q \<noteq> [] \<and> butlast q = p) (files s)"

definition remove_entry :: "path \<Rightarrow> machine \<Rightarrow> machine" where
  "remove_entry p s = s\<lparr>files := filter (\<lambda>(q, n). q \<noteq> p) (files s)\<rparr>"

definition remove_subtree :: "path \<Rightarrow> machine \<Rightarrow> machine" where
  "remove_subtree p s = s\<lparr>files := filter (\<lambda>(q, n). \<not> prefix p q) (files s)\<rparr>"

definition put_node :: "path \<Rightarrow> node \<Rightarrow> machine \<Rightarrow> machine" where
  "put_node p n s = s\<lparr>files := AList.update p n (files s)\<rparr>"

subsection \<open>The path contract on this filesystem\<close>

text \<open>
  Modelled from the spec: the classes \<^verbatim>\<open>LocalPath\<close> and \<^verbatim>\<open>ContainerPath\<close> and the module
  \<^verbatim>\<open>_fileinfo\<close> are not among the sources. The spec gives both classes one contract, and the
  docstrings of \<^verbatim>\<open>PathProtocol\<close> list what each method raises: a metadata query or a read of a
  missing path fails with not-found (with not-a-directory below a file); \<^verbatim>\<open>write_bytes\<close>
  creates or overwrites, sets the permission bits and, if provided, owner and group, fails with
  not-found when the parent is missing, with not-a-directory when the parent is not a
  directory, with a lookup failure when the user or group is unknown, and returns the number
  of bytes written; \<^verbatim>\<open>mkdir\<close> with \<^verbatim>\<open>parents\<close> and \<^verbatim>\<open>exist_ok\<close> creates the missing directories
  of the chain with the default mode and accepts those that exist. The metadata of a file
  holds permission bits: of the mode given to \<^verbatim>\<open>write_bytes\<close> the file keeps \<^const>\<open>S_IMODE\<close>.
\<close>

text \<open>The default mode of a created directory, \<^verbatim>\<open>0o755\<close>.\<close>

definition DEFAULT_MKDIR_MODE :: int where
  "DEFAULT_MKDIR_MODE = 493"

definition fs_get_fileinfo :: "path \<Rightarrow> machine \<Rightarrow> exc + file_info" where
  "fs_get_fileinfo p s =
     (case node_at s p of
        None \<Rightarrow> Inl (missing s p)
      | Some n \<Rightarrow> Inr (info_of n))"

definition fs_read_bytes :: "path \<Rightarrow> machine \<Rightarrow> exc + bytes" where
  "fs_read_bytes p s =
     (case node_at s p of
        None \<Rightarrow> Inl (missing s p)
      | Some (Dir info) \<Rightarrow> Inl (IsADirectoryError (posix p) None)
      | Some (File info data) \<Rightarrow> Inr data)"

text \<open>
  \<open>mkdir_chain pre todo\<close> walks down from the directory \<open>pre\<close> along the components
  \<open>todo\<close>: a missing directory is created with the default mode and the caller as owner, an
  existing one is kept, and a node that is not a directory stops the walk.
\<close>

fun mkdir_chain :: "path \<Rightarrow> string list \<Rightarrow> machine \<Rightarrow> exc + machine" where
  "mkdir_chain pre [] s =
     (case node_at s pre of
        None \<Rightarrow>
          Inr (put_node pre
                 (Dir \<lparr>permissions = DEFAULT_MKDIR_MODE, user = Some (euser s),
                       group = Some (egroup s)\<rparr>) s)
      | Some (Dir info) \<Rightarrow> Inr s
      | Some (File info data) \<Rightarrow> Inl (FileExistsError (posix pre) None))"
| "mkdir_chain pre (x # xs) s =
     (case node_at s pre of
        None \<Rightarrow>
          mkdir_chain (pre @ [x]) xs
            (put_node pre
               (Dir \<lparr>permissions = DEFAULT_MKDIR_MODE, user = Some (euser s),
                     group = Some (egroup s)\<rparr>) s)
      | Some (Dir info) \<Rightarrow> mkdir_chain (pre @ [x]) xs s
      | Some (File info data) \<Rightarrow> Inl (NotADirectoryError (posix (pre @ x # xs)) None))"

definition fs_mkdir_parents :: "path \<Rightarrow> machine \<Rightarrow> exc + machine" where
  "fs_mkdir_parents p s = mkdir_chain [] p s"

definition known :: "string list \<Rightarrow> string option \<Rightarrow> bool" where
  "known names x = (case x of None \<Rightarrow> True | Some name \<Rightarrow> name \<in> set names)"

definition owner_or :: "string option \<Rightarrow> string option \<Rightarrow> string option" where
  "owner_or wanted current = (case wanted of None \<Rightarrow> current | Some name \<Rightarrow> Some name)"

definition fs_write_bytes ::
  "path \<Rightarrow> machine \<Rightarrow> bytes \<Rightarrow> int \<Rightarrow> string option \<Rightarrow> string option \<Rightarrow> exc + nat \<times> machine" where
  "fs_write_bytes p s data mode usr grp =
     (if \<not> (known (users s) usr \<and> known (groups s) grp) then Inl (LookupError (posix p) None)
      else case node_at s (parent p) of
        None \<Rightarrow> Inl (missing s p)
      | Some (File info old) \<Rightarrow> Inl (NotADirectoryError (posix p) None)
      | Some (Dir dinfo) \<Rightarrow>
          (case node_at s p of
             Some (Dir info) \<Rightarrow> Inl (IsADirectoryError (posix p) None)
           | Some (File info old) \<Rightarrow>
               Inr (length data,
                    put_node p
                      (File \<lparr>permissions = S_IMODE mode, user = owner_or usr (user info),
                             group = owner_or grp (group info)\<rparr> data) s)
           | None \<Rightarrow>
               Inr (length data,
                    put_node p
                      (File \<lparr>permissions = S_IMODE mode, user = owner_or usr (Some (euser s)),
                             group = owner_or grp (Some (egroup s))\<rparr> data) s)))"

definition fs_path :: "path \<Rightarrow> machine path_handle" where
  "fs_path p =
     \<lparr>get_fileinfo = fs_get_fileinfo p,
      read_bytes = fs_read_bytes p,
      parent_mkdir = fs_mkdir_parents (parent p),
      write_bytes = fs_write_bytes p\<rparr>"

subsection \<open>What \<^verbatim>\<open>ensure_contents\<close> aims at\<close>

text \<open>
  The path is up to date when it is a file with exactly the wanted permission bits, the wanted
  owner and group where one is wanted, and the wanted content.
\<close>

definition up_to_date ::
  "path \<Rightarrow> bytes \<Rightarrow> int \<Rightarrow> string option \<Rightarrow> string option \<Rightarrow> machine \<Rightarrow> bool" where
  "up_to_date p data mode usr grp s =
     (case node_at s p of
        Some (File info current) \<Rightarrow>
          permissions info = mode \<and> (usr = None \<or> user info = usr)
          \<and> (grp = None \<or> group info = grp) \<and> current = data
      | _ \<Rightarrow> False)"

section \<open>\<^verbatim>\<open>remove_path\<close>\<close>

subsection \<open>The local backend\<close>

text \<open>
  The calls of \<^verbatim>\<open>pathlib\<close> and \<^verbatim>\<open>shutil\<close> that \<^verbatim>\<open>_remove_pathlib_path\<close> makes, on the
  filesystem above: \<^verbatim>\<open>Path.exists\<close>, \<^verbatim>\<open>Path.is_dir\<close>, \<^verbatim>\<open>Path.unlink\<close>, \<^verbatim>\<open>Path.rmdir\<close> and
  \<^verbatim>\<open>shutil.rmtree\<close>, with the errors the operating system reports. \<^verbatim>\<open>exists\<close> and \<^verbatim>\<open>is_dir\<close>
  answer \<^verbatim>\<open>False\<close> for a path without entry, also below a file.
\<close>

definition path_exists :: "machine \<Rightarrow> path \<Rightarrow> bool" where
  "path_exists s p = (case node_at s p of None \<Rightarrow> False | Some n \<Rightarrow> True)"

definition path_is_dir :: "machine \<Rightarrow> path \<Rightarrow> bool" where
  "path_is_dir s p = (case node_at s p of Some (Dir info) \<Rightarrow> True | _ \<Rightarrow> False)"

definition path_unlink :: "path \<Rightarrow> machine \<Rightarrow> exc + machine" where
  "path_unlink p s =
     (case node_at s p of
        None \<Rightarrow> Inl (missing s p)
      | Some (Dir info) \<Rightarrow> Inl (IsADirectoryError (posix p) None)
      | Some (File info data) \<Rightarrow> Inr (remove_entry p s))"

definition path_rmdir :: "path \<Rightarrow> machine \<Rightarrow> exc + machine" where
  "path_rmdir p s =
     (case node_at s p of
        None \<Rightarrow> Inl (missing s p)
      | Some (File info data) \<Rightarrow> Inl (NotADirectoryError (posix p) None)
      | Some (Dir info) \<Rightarrow>
          if has_children s p then Inl (DirectoryNotEmptyError (posix p) None)
          else Inr (remove_entry p s))"

definition shutil_rmtree :: "path \<Rightarrow> machine \<Rightarrow> exc + machine" where
  "shutil_rmtree p s =
     (case node_at s p of
        None \<Rightarrow> Inl (missing s p)
      | Some (File info data) \<Rightarrow> Inl (NotADirectoryError (posix p) None)
      | Some (Dir info) \<Rightarrow> Inr (remove_subtree p s))"

definition remove_pathlib_path :: "path \<Rightarrow> bool \<Rightarrow> machine \<Rightarrow> exc + machine" where
  "remove_pathlib_path path recursive s =
     (if recursive \<and> \<not> path_exists s path then Inr s
      else if \<not> path_is_dir s path then path_unlink path s
      else if \<not> recursive then path_rmdir path s
      else shutil_rmtree path s)"

subsection \<open>The remote backend\<close>

text \<open>
  A \<^verbatim>\<open>ContainerPath\<close> holds its container and its path. Of the container only the method
  \<^verbatim>\<open>remove_path(path, recursive=...)\<close> is called here: it returns the new state of the
  container's filesystem or raises a protocol error. \<open>cp_repr\<close> is the string that
  \<^verbatim>\<open>repr(path)\<close> returns; \<^verbatim>\<open>ContainerPath.__repr__\<close> is not among the sources.
\<close>

record 's container_path =
  cp_container :: "'s \<Rightarrow> path \<Rightarrow> bool \<Rightarrow> pebble_error + 's"
  cp_path :: path
  cp_repr :: string

text \<open>
  \<^verbatim>\<open>except pebble.PathError\<close> catches a \<^verbatim>\<open>PathError\<close> only; any other protocol error leaves
  the function as it is. The final \<^verbatim>\<open>raise\<close> re-raises the \<^verbatim>\<open>PathError\<close> that no matcher took.
\<close>

definition remove_container_path :: "'s container_path \<Rightarrow> bool \<Rightarrow> 's \<Rightarrow> exc + 's" where
  "remove_container_path path recursive s =
     (case cp_container path s (cp_path path) recursive of
        Inr s' \<Rightarrow> Inr s'
      | Inl e \<Rightarrow>
          (case e of
             PathError kind message \<Rightarrow>
               (let msg = cp_repr path in
                case raise_if_matches_directory_not_empty e msg of
                  Some x \<Rightarrow> Inl x
                | None \<Rightarrow>
                    (case raise_if_matches_file_not_found e msg of
                       Some x \<Rightarrow> Inl x
                     | None \<Rightarrow>
                         (case raise_if_matches_permission e msg of
                            Some x \<Rightarrow> Inl x
                          | None \<Rightarrow> Inl (PebbleError e))))
           | _ \<Rightarrow> Inl (PebbleError e)))"

text \<open>
  The argument of \<^verbatim>\<open>remove_path\<close> is a \<^verbatim>\<open>ContainerPath\<close>, or a \<^verbatim>\<open>str\<close> or \<^verbatim>\<open>os.PathLike\<close> that
  \<^verbatim>\<open>pathlib.Path\<close> turns into a local path.
\<close>

datatype 's path_arg = ContainerPath "'s container_path" | LocalPath path

definition remove_path :: "machine path_arg \<Rightarrow> bool \<Rightarrow> machine \<Rightarrow> exc + machine" where
  "remove_path path recursive s =
     (case path of
        ContainerPath cp \<Rightarrow> remove_container_path cp recursive s
      | LocalPath p \<Rightarrow> remove_pathlib_path p recursive s)"

text \<open>
  The remove-path call of the Pebble agent, as \<^verbatim>\<open>ops.Container.remove_path\<close> documents it:
  with \<^verbatim>\<open>recursive\<close> it deletes the file or the directory with everything under it and does
  nothing if the path does not exist; without, it removes a file or an empty directory and
  reports a missing path in the not-found category and a directory with entries in the
  generic-file-error category.
\<close>

definition pebble_remove_path :: "machine \<Rightarrow> path \<Rightarrow> bool \<Rightarrow> pebble_error + machine" where
  "pebble_remove_path s p recursive =
     (if recursive then Inr (remove_subtree p s)
      else case node_at s p of
        None \<Rightarrow> Inl (PathError ''not-found'' (''remove '' @ posix p @ '': no such file or directory''))
      | Some (File info data) \<Rightarrow> Inr (remove_entry p s)
      | Some (Dir info) \<Rightarrow>
          if has_children s p
          then Inl (PathError ''generic-file-error''
                     (''remove '' @ posix p @ '': directory not empty''))
          else Inr (remove_entry p s))"

definition pebble_path :: "path \<Rightarrow> machine container_path" where
  "pebble_path p =
     \<lparr>cp_container = pebble_remove_path, cp_path = p,
      cp_repr = ''ContainerPath('' @ posix p @ '')''\<rparr>"

section \<open>\<^verbatim>\<open>PathProtocol.with_suffix\<close>\<close>

text \<open>
  Modelled from the spec: \<^verbatim>\<open>with_suffix\<close> is declared in \<^verbatim>\<open>PathProtocol\<close> with a docstring and no
  body, and neither implementing class is among the sources. The functions below follow the
  docstrings of \<^verbatim>\<open>with_suffix\<close>, \<^verbatim>\<open>suffix\<close> and \<^verbatim>\<open>stem\<close>, on the name of the path (its last
  component; the other components stay as they are). The suffix argument must be empty or start
  with \<^verbatim>\<open>'.'\<close>. A name that contains no \<^verbatim>\<open>'.'\<close> or ends with one has no suffix, and the argument is
  appended to it; otherwise the last \<^verbatim>\<open>'.'\<close> and what follows it is the suffix, and the argument
  replaces it. The stem is the name minus its last suffix.
\<close>

definition has_suffix :: "string \<Rightarrow> bool" where
  "has_suffix name = (CHR ''.'' \<in> set name \<and> last name \<noteq> CHR ''.'')"

definition before_last_dot :: "string \<Rightarrow> string" where
  "before_last_dot name = rev (tl (dropWhile (\<lambda>c. c \<noteq> CHR ''.'') (rev name)))"

definition stem :: "string \<Rightarrow> string" where
  "stem name = (if has_suffix name then before_last_dot name else name)"

definition suffix_of :: "string \<Rightarrow> string" where
  "suffix_of name = drop (length (stem name)) name"

definition with_suffix :: "string \<Rightarrow> string \<Rightarrow> exc + string" where
  "with_suffix name suff =
     (if suff \<noteq> [] \<and> hd suff \<noteq> CHR ''.''
      then Inl (ValueError (''Invalid suffix '' @ suff))
      else if CHR ''.'' \<notin> set name \<or> last name = CHR ''.'' then Inr (name @ suff)
      else Inr (before_last_dot name @ suff))"

section \<open>Example states\<close>

text \<open>
  A small machine: \<^verbatim>\<open>/etc/motd\<close> is a file with mode \<^verbatim>\<open>0o644\<close> and content \<^verbatim>\<open>b'hi'\<close>, \<^verbatim>\<open>/srv\<close> is
  an empty directory.
\<close>

definition root_info :: file_info where
  "root_info = \<lparr>permissions = 493, user = Some ''root'', group = Some ''root''\<rparr>"

definition motd :: path where
  "motd = [''etc'', ''motd'']"

definition demo :: machine where
  "demo =
     \<lparr>files =
        [([], Dir root_info),
         ([''etc''], Dir root_info),
         ([''etc'', ''motd''],
            File \<lparr>permissions = 420, user = Some ''root'', group = Some ''root''\<rparr> [104, 105]),
         ([''srv''], Dir root_info)],
      users = [''root'', ''ubuntu''],
      groups = [''root'', ''ubuntu''],
      euser = ''root'',
      egroup = ''root''\<rparr>"

text \<open>The machine after \<^verbatim>\<open>/etc/motd\<close> was written with mode \<^verbatim>\<open>0o600\<close> for the user \<^verbatim>\<open>ubuntu\<close>.\<close>

definition demo_written :: machine where
  "demo_written =
     put_node motd
       (File \<lparr>permissions = 384, user = Some ''ubuntu'', group = Some ''root''\<rparr> [104, 105]) demo"

text \<open>The machine after \<^verbatim>\<open>/srv/app/conf\<close> was created with mode \<^verbatim>\<open>0o600\<close>.\<close>

definition conf :: path where
  "conf = [''srv'', ''app'', ''conf'']"

definition demo_app :: machine where
  "demo_app = put_node [''srv'', ''app''] (Dir root_info) demo"

definition demo_conf :: machine where
  "demo_conf =
     put_node conf
       (File \<lparr>permissions = 384, user = Some ''root'', group = Some ''root''\<rparr> [104, 195, 169])
       demo_app"

text \<open>
  Two containers whose remove-path call fails whatever it is asked: one reports the path as
  missing, the other reports a generic file error that no matcher knows.
\<close>

definition missing_container :: "machine \<Rightarrow> path \<Rightarrow> bool \<Rightarrow> pebble_error + machine" where
  "missing_container s p recursive =
     Inl (PathError ''not-found'' (''remove '' @ posix p @ '': no such file or directory''))"

definition busy_container :: "machine \<Rightarrow> path \<Rightarrow> bool \<Rightarrow> pebble_error + machine" where
  "busy_container s p recursive =
     Inl (PathError ''generic-file-error'' (''remove '' @ posix p @ '': device or resource busy''))"

definition failing_container :: "machine \<Rightarrow> path \<Rightarrow> bool \<Rightarrow> pebble_error + machine" where
  "failing_container s p recursive = Inl (APIError 500 ''internal server error'')"

section \<open>Facts about the filesystem\<close>

lemma map_of_filter_neq:
  "map_of (filter (\<lambda>(q, n). q \<noteq> p) xs) q = (if q = p then None else map_of xs q)"
  by (induction xs) auto

lemma node_at_remove_entry:
  "node_at (remove_entry p s) q = (if q = p then None else node_at s q)"
  by (simp add: node_at_def remove_entry_def map_of_filter_neq)

lemma node_at_put_node:
  "node_at (put_node p n s) q = (if q = p then Some n else node_at s q)"
  by (simp add: node_at_def put_node_def update_conv')

lemma node_at_demo:
  "node_at demo [''nope''] = None"
  "node_at demo motd =
     Some (File \<lparr>permissions = 420, user = Some ''root'', group = Some ''root''\<rparr> [104, 105])"
  "node_at demo [''srv''] = Some (Dir root_info)"
  "node_at demo [''etc''] = Some (Dir root_info)"
  by (simp_all add: node_at_def demo_def motd_def)



lemma S_IMODE_bits:
  assumes "0 \<le> mode" and "mode \<le> 511"
  shows "S_IMODE mode = mode"
proof -
  have "mode AND mask 12 = take_bit 12 mode"
    by (simp add: take_bit_eq_mask)
  moreover have "take_bit 12 mode = mode"
    using assms by (simp add: take_bit_int_eq_self)
  moreover have "(mask 12 :: int) = 4095"
    by (simp add: mask_eq_exp_minus_1)
  ultimately show ?thesis
    by (simp add: S_IMODE_def)
qed

section \<open>The error taxonomy mapper\<close>

text \<open>
  C7: a protocol error is matched by message substring within the generic-file-error category
  only. A message containing \<^verbatim>\<open>file exists\<close> raises \<^verbatim>\<open>FileExistsError\<close>, one containing
  \<^verbatim>\<open>can only read a regular file\<close> raises \<^verbatim>\<open>IsADirectoryError\<close>, one containing
  \<^verbatim>\<open>cannot look up user and group\<close> raises \<^verbatim>\<open>LookupError\<close>, each from the protocol error, and
  one containing \<^verbatim>\<open>not a directory\<close> is recognized by \<^verbatim>\<open>matches_not_a_directory\<close>. An error of
  another class or category, or with another message, is matched by none of them.
\<close>

theorem generic_file_error_mapper:
  "raise_if_matches_file_exists error msg =
     (if \<exists>m. error = PathError ''generic-file-error'' m \<and> sublist ''file exists'' m
      then Some (FileExistsError msg (Some error)) else None)
   \<and> raise_if_matches_is_a_directory error msg =
     (if \<exists>m. error = PathError ''generic-file-error'' m
            \<and> sublist ''can only read a regular file'' m
      then Some (IsADirectoryError msg (Some error)) else None)
   \<and> raise_if_matches_lookup error msg =
     (if \<exists>m. error = PathError ''generic-file-error'' m
            \<and> sublist ''cannot look up user and group'' m
      then Some (LookupError msg (Some error)) else None)
   \<and> matches_not_a_directory error =
     (\<exists>m. error = PathError ''generic-file-error'' m \<and> sublist ''not a directory'' m)"
  by (cases error)
     (simp_all add: raise_if_matches_file_exists_def raise_file_exists_def
        raise_if_matches_is_a_directory_def raise_if_matches_lookup_def
        matches_not_a_directory_def)

theorem generic_file_error_mapper_witness:
  "raise_if_matches_file_exists
       (PathError ''generic-file-error'' ''mkdir /a: file exists'') ''/a''
     = Some (FileExistsError ''/a''
               (Some (PathError ''generic-file-error'' ''mkdir /a: file exists'')))
   \<and> raise_if_matches_file_exists (PathError ''not-found'' ''file exists'') ''/a'' = None
   \<and> raise_if_matches_lookup (APIError 400 ''cannot look up user and group'') ''/a'' = None
   \<and> raise_if_matches_is_a_directory (PathError ''generic-file-error'' ''busy'') ''/a'' = None
   \<and> matches_not_a_directory (PathError ''generic-file-error'' ''open /f/x: not a directory'')"
proof -
  have 1: "sublist ''file exists'' ''mkdir /a: file exists''" by code_simp
  have 2: "\<not> sublist ''can only read a regular file'' ''busy''" by code_simp
  have 3: "sublist ''not a directory'' ''open /f/x: not a directory''" by code_simp
  show ?thesis
    using 1 2 3
      generic_file_error_mapper
        [of "PathError ''generic-file-error'' ''mkdir /a: file exists''" "''/a''"]
      generic_file_error_mapper [of "PathError ''not-found'' ''file exists''" "''/a''"]
      generic_file_error_mapper [of "APIError 400 ''cannot look up user and group''" "''/a''"]
      generic_file_error_mapper [of "PathError ''generic-file-error'' ''busy''" "''/a''"]
      generic_file_error_mapper
        [of "PathError ''generic-file-error'' ''open /f/x: not a directory''" "''/a''"]
    by simp
qed

section \<open>\<^verbatim>\<open>ensure_contents\<close> on any path object\<close>

lemma mkdir_and_write_not_False:
  "mkdir_and_write path data mode usr grp s \<noteq> Inr (False, s')"
  by (simp add: mkdir_and_write_def split: sum.splits prod.splits)


lemma encode_codepoint_encodable:
  assumes "c < 0xD800 \<or> (0xE000 \<le> c \<and> c < 0x110000)"
  shows "\<exists>b. encode_codepoint c = Inr b"
proof -
  have "\<not> (0xD800 \<le> c \<and> c < 0xE000)" and "c < 0x110000"
    using assms by linarith+
  then show ?thesis
    unfolding encode_codepoint_def by (simp only: if_False split: if_split) blast
qed

lemma encode_encodable:
  "encodable t \<Longrightarrow> \<exists>b. encode t = Inr b"
proof (induction t)
  case Nil
  then show ?case by simp
next
  case (Cons c cs)
  have "c < 0xD800 \<or> (0xE000 \<le> c \<and> c < 0x110000)" and "encodable cs"
    using Cons.prems by (simp_all add: encodable_def)
  then obtain b bs where "encode_codepoint c = Inr b" and "encode cs = Inr bs"
    using encode_codepoint_encodable Cons.IH by blast
  then show ?case by simp
qed

lemma encode_utf8_examples:
  "encode [104, 233] = Inr [104, 195, 169]"
  "encode [8364, 128512] = Inr [226, 130, 172, 240, 159, 152, 128]"
  "encode [55296] = Inl UnicodeEncodeError"
  by (simp_all add: encode_codepoint_def)

text \<open>
  C9: the source is turned into bytes before anything else happens. Bytes are used as they
  are, a string is encoded, and for an object with a \<^verbatim>\<open>read()\<close> method the call is the same as
  the call on the value that \<^verbatim>\<open>read()\<close> returns. Whatever the source, the call is the call on its
  bytes, and every string without surrogates has bytes; if the source has no bytes (the
  encoding fails) the call raises that error. The bytes of the source are what is compared and
  what is written: the call returns \<^verbatim>\<open>False\<close> only if the path reads as exactly these bytes, and
  it returns \<^verbatim>\<open>True\<close> only after \<^verbatim>\<open>write_bytes\<close> has written exactly these bytes.
\<close>

theorem ensure_contents_normalizes_source:
  "as_bytes (Bytes b) = Inr b
   \<and> as_bytes (Str t) = encode t
   \<and> as_bytes (Reader v) = as_bytes v
   \<and> ensure_contents path (Reader v) mode usr grp s = ensure_contents path v mode usr grp s
   \<and> (as_bytes source = Inr b \<longrightarrow>
        ensure_contents path source mode usr grp s
          = ensure_contents path (Bytes b) mode usr grp s)
   \<and> (encodable t \<longrightarrow>
        (\<exists>b'. encode t = Inr b'
           \<and> ensure_contents path (Str t) mode usr grp s
               = ensure_contents path (Bytes b') mode usr grp s))
   \<and> (as_bytes source = Inl e \<longrightarrow> ensure_contents path source mode usr grp s = Inl e)
   \<and> (as_bytes source = Inr b \<longrightarrow>
        ensure_contents path source mode usr grp s =
          (case get_fileinfo path s of
             Inl x \<Rightarrow>
               if isinstance_FileNotFoundError x then mkdir_and_write path b mode usr grp s
               else Inl x
           | Inr info \<Rightarrow>
               if permissions info = mode \<and> (usr = None \<or> user info = usr)
                  \<and> (grp = None \<or> group info = grp)
               then (case read_bytes path s of
                       Inl x \<Rightarrow> Inl x
                     | Inr current \<Rightarrow>
                         if current = b then Inr (False, s)
                         else mkdir_and_write path b mode usr grp s)
               else mkdir_and_write path b mode usr grp s))
   \<and> (as_bytes source = Inr b
        \<and> ensure_contents path source mode usr grp s = Inr (False, s') \<longrightarrow>
          s' = s \<and> read_bytes path s = Inr b)
   \<and> (as_bytes source = Inr b
        \<and> ensure_contents path source mode usr grp s = Inr (True, s') \<longrightarrow>
          (\<exists>s1 n. parent_mkdir path s = Inr s1
             \<and> write_bytes path s1 b mode usr grp = Inr (n, s')))"
proof -
  have reader: "ensure_contents path (Reader v) mode usr grp s
      = ensure_contents path v mode usr grp s"
    by (simp add: ensure_contents_def)
  have bytes: "ensure_contents path src mode usr grp s
      = ensure_contents path (Bytes d) mode usr grp s" if "as_bytes src = Inr d" for src d
    using that by (simp add: ensure_contents_def)
  have failed: "ensure_contents path source mode usr grp s = Inl e"
    if "as_bytes source = Inl e"
    using that by (simp add: ensure_contents_def)
  have str: "\<exists>b'. encode t = Inr b'
           \<and> ensure_contents path (Str t) mode usr grp s
               = ensure_contents path (Bytes b') mode usr grp s" if enc: "encodable t"
  proof -
    obtain b' where "encode t = Inr b'"
      using enc encode_encodable by blast
    then show ?thesis
      using bytes [of "Str t" b'] by auto
  qed
  have body: "ensure_contents path source mode usr grp s =
          (case get_fileinfo path s of
             Inl x \<Rightarrow>
               if isinstance_FileNotFoundError x then mkdir_and_write path b mode usr grp s
               else Inl x
           | Inr info \<Rightarrow>
               if permissions info = mode \<and> (usr = None \<or> user info = usr)
                  \<and> (grp = None \<or> group info = grp)
               then (case read_bytes path s of
                       Inl x \<Rightarrow> Inl x
                     | Inr current \<Rightarrow>
                         if current = b then Inr (False, s)
                         else mkdir_and_write path b mode usr grp s)
               else mkdir_and_write path b mode usr grp s)"
    if "as_bytes source = Inr b"
    using that by (simp add: ensure_contents_def)
  have compared: "s' = s \<and> read_bytes path s = Inr b"
    if "as_bytes source = Inr b"
      and "ensure_contents path source mode usr grp s = Inr (False, s')"
    using that(2) unfolding body [OF that(1)]
    by (auto simp: mkdir_and_write_not_False split: sum.splits if_splits)
  have written: "\<exists>s1 n. parent_mkdir path s = Inr s1
             \<and> write_bytes path s1 b mode usr grp = Inr (n, s')"
    if "as_bytes source = Inr b"
      and "ensure_contents path source mode usr grp s = Inr (True, s')"
  proof -
    have "mkdir_and_write path b mode usr grp s = Inr (True, s')"
      using that(2) unfolding body [OF that(1)]
      by (auto split: sum.splits if_splits)
    then show ?thesis
      by (auto simp: mkdir_and_write_def split: sum.splits prod.splits)
  qed
  show ?thesis
  proof (intro conjI impI)
    show "as_bytes (Bytes b) = Inr b" by simp
    show "as_bytes (Str t) = encode t" by simp
    show "as_bytes (Reader v) = as_bytes v" by simp
    show "ensure_contents path (Reader v) mode usr grp s
        = ensure_contents path v mode usr grp s"
      by (rule reader)
    show "ensure_contents path source mode usr grp s
        = ensure_contents path (Bytes b) mode usr grp s" if "as_bytes source = Inr b"
      using that by (rule bytes)
    show "\<exists>b'. encode t = Inr b'
           \<and> ensure_contents path (Str t) mode usr grp s
               = ensure_contents path (Bytes b') mode usr grp s" if "encodable t"
      using that by (rule str)
    show "ensure_contents path source mode usr grp s = Inl e" if "as_bytes source = Inl e"
      using that by (rule failed)
    show "ensure_contents path source mode usr grp s =
          (case get_fileinfo path s of
             Inl x \<Rightarrow>
               if isinstance_FileNotFoundError x then mkdir_and_write path b mode usr grp s
               else Inl x
           | Inr info \<Rightarrow>
               if permissions info = mode \<and> (usr = None \<or> user info = usr)
                  \<and> (grp = None \<or> group info = grp)
               then (case read_bytes path s of
                       Inl x \<Rightarrow> Inl x
                     | Inr current \<Rightarrow>
                         if current = b then Inr (False, s)
                         else mkdir_and_write path b mode usr grp s)
               else mkdir_and_write path b mode usr grp s)"
      if "as_bytes source = Inr b"
      using that by (rule body)
    show "s' = s" and "read_bytes path s = Inr b"
      if "as_bytes source = Inr b
        \<and> ensure_contents path source mode usr grp s = Inr (False, s')"
      using that compared by blast+
    show "\<exists>s1 n. parent_mkdir path s = Inr s1
             \<and> write_bytes path s1 b mode usr grp = Inr (n, s')"
      if "as_bytes source = Inr b
        \<and> ensure_contents path source mode usr grp s = Inr (True, s')"
      using that written by blast
  qed
qed

theorem ensure_contents_normalizes_source_witness:
  "as_bytes (Reader (Str [104, 233])) = Inr [104, 195, 169]
   \<and> encodable [104, 233]
   \<and> ensure_contents (fs_path conf) (Reader (Str [104, 233])) 384 None None demo
       = ensure_contents (fs_path conf) (Bytes [104, 195, 169]) 384 None None demo
   \<and> ensure_contents (fs_path conf) (Str [104, 233]) 384 None None demo
       = ensure_contents (fs_path conf) (Bytes [104, 195, 169]) 384 None None demo
   \<and> ensure_contents (fs_path conf) (Str [55296]) 384 None None demo = Inl UnicodeEncodeError
   \<and> ensure_contents (fs_path conf) (Reader (Str [104, 233])) 384 None None demo
       = Inr (True, demo_conf)
   \<and> (\<exists>s1 n. parent_mkdir (fs_path conf) demo = Inr s1
          \<and> write_bytes (fs_path conf) s1 [104, 195, 169] 384 None None = Inr (n, demo_conf))
   \<and> ensure_contents (fs_path motd) (Reader (Str [104, 105])) 420 None None demo
       = Inr (False, demo)
   \<and> read_bytes (fs_path motd) demo = Inr [104, 105]"
proof -
  have 1: "as_bytes (Reader (Str [104, 233])) = Inr [104, 195, 169]"
    by (simp add: encode_codepoint_def)
  have 2: "as_bytes (Str [55296]) = Inl UnicodeEncodeError"
    by (simp add: encode_codepoint_def)
  have 3: "encodable [104, 233]"
    by (simp add: encodable_def)
  have 4: "ensure_contents (fs_path conf) (Reader (Str [104, 233])) 384 None None demo
       = Inr (True, demo_conf)"
    by code_simp
  have 5: "as_bytes (Reader (Str [104, 105])) = Inr [104, 105]"
    by (simp add: encode_codepoint_def)
  have 6: "ensure_contents (fs_path motd) (Reader (Str [104, 105])) 420 None None demo
       = Inr (False, demo)"
    by code_simp
  note hi =
    ensure_contents_normalizes_source
      [where source = "Reader (Str [104, 233])" and b = "[104, 195, 169]"
         and path = "fs_path conf" and mode = 384 and usr = None and grp = None
         and s = demo and t = "[104, 233]" and v = "Bytes []" and e = UnicodeEncodeError
         and s' = demo_conf]
  note bad =
    ensure_contents_normalizes_source
      [where source = "Str [55296]" and b = "[]"
         and path = "fs_path conf" and mode = 384 and usr = None and grp = None
         and s = demo and t = "[]" and v = "Bytes []" and e = UnicodeEncodeError
         and s' = demo]
  note same =
    ensure_contents_normalizes_source
      [where source = "Reader (Str [104, 105])" and b = "[104, 105]"
         and path = "fs_path motd" and mode = 420 and usr = None and grp = None
         and s = demo and t = "[]" and v = "Bytes []" and e = UnicodeEncodeError
         and s' = demo]
  have "ensure_contents (fs_path conf) (Reader (Str [104, 233])) 384 None None demo
       = ensure_contents (fs_path conf) (Bytes [104, 195, 169]) 384 None None demo"
    using 1 hi by blast
  moreover have "ensure_contents (fs_path conf) (Str [104, 233]) 384 None None demo
       = ensure_contents (fs_path conf) (Bytes [104, 195, 169]) 384 None None demo"
  proof -
    obtain b' where e: "encode [104, 233] = Inr b'"
      and q: "ensure_contents (fs_path conf) (Str [104, 233]) 384 None None demo
        = ensure_contents (fs_path conf) (Bytes b') 384 None None demo"
      using 3 hi by blast
    have "b' = [104, 195, 169]"
      using e by (simp add: encode_codepoint_def)
    then show ?thesis
      using q by simp
  qed
  moreover have "ensure_contents (fs_path conf) (Str [55296]) 384 None None demo
       = Inl UnicodeEncodeError"
    using 2 bad by blast
  moreover have "\<exists>s1 n. parent_mkdir (fs_path conf) demo = Inr s1
          \<and> write_bytes (fs_path conf) s1 [104, 195, 169] 384 None None = Inr (n, demo_conf)"
    using 1 4 hi by blast
  moreover have "read_bytes (fs_path motd) demo = Inr [104, 105]"
    using 5 6 same by blast
  ultimately show ?thesis
    using 1 3 4 6 by blast
qed

text \<open>
  C4: when the metadata query at the start fails with not-found, that error does not leave
  \<^verbatim>\<open>ensure_contents\<close>: the call goes on to create the parents and write, and once both have
  succeeded it returns \<^verbatim>\<open>True\<close>.
\<close>

theorem ensure_contents_not_found_is_swallowed:
  assumes "get_fileinfo path s = Inl (FileNotFoundError m c)"
    and "as_bytes source = Inr data"
  shows "ensure_contents path source mode usr grp s = mkdir_and_write path data mode usr grp s
    \<and> (\<forall>s1 n s2. parent_mkdir path s = Inr s1
            \<and> write_bytes path s1 data mode usr grp = Inr (n, s2)
          \<longrightarrow> ensure_contents path source mode usr grp s = Inr (True, s2))"
  using assms by (simp add: ensure_contents_def mkdir_and_write_def)

theorem ensure_contents_not_found_is_swallowed_witness:
  "get_fileinfo (fs_path conf) demo = Inl (FileNotFoundError ''/srv/app/conf'' None)
   \<and> ensure_contents (fs_path conf) (Str [104, 233]) 384 None None demo = Inr (True, demo_conf)"
proof -
  have 1: "get_fileinfo (fs_path conf) demo = Inl (FileNotFoundError ''/srv/app/conf'' None)"
    by code_simp
  have 2: "as_bytes (Str [104, 233]) = Inr [104, 195, 169]"
    by (simp add: encode_codepoint_def)
  have 3: "parent_mkdir (fs_path conf) demo = Inr demo_app"
    by code_simp
  have 4: "write_bytes (fs_path conf) demo_app [104, 195, 169] 384 None None = Inr (3, demo_conf)"
    by code_simp
  show ?thesis
    using 1 3 4 ensure_contents_not_found_is_swallowed [OF 1 2, of 384 None None] by blast
qed



section \<open>\<^verbatim>\<open>ensure_contents\<close> on the filesystem\<close>

lemma fs_write_bytes_up_to_date:
  assumes "fs_write_bytes p s data mode usr grp = Inr (n, s')"
    and "S_IMODE mode = mode"
  shows "up_to_date p data mode usr grp s'"
  using assms
  by (auto simp: fs_write_bytes_def up_to_date_def node_at_put_node owner_or_def
      split: if_splits option.splits node.splits)

lemma up_to_date_ensure_contents:
  assumes "up_to_date p data mode usr grp s"
  shows "ensure_contents (fs_path p) (Bytes data) mode usr grp s = Inr (False, s)"
  using assms
  by (auto simp: up_to_date_def ensure_contents_def fs_path_def fs_get_fileinfo_def
      fs_read_bytes_def split: option.splits node.splits)

lemma up_to_date_read:
  "up_to_date p data mode usr grp s \<Longrightarrow> fs_read_bytes p s = Inr data"
  by (auto simp: up_to_date_def fs_read_bytes_def split: option.splits node.splits)

lemma mkdir_and_write_fs:
  assumes "mkdir_and_write (fs_path p) data mode usr grp s = Inr (changed, s')"
    and "S_IMODE mode = mode"
  shows "changed \<and> up_to_date p data mode usr grp s'"
  using assms
  by (auto simp: mkdir_and_write_def fs_path_def split: sum.splits prod.splits
      dest: fs_write_bytes_up_to_date)

lemma ensure_contents_fs_cases:
  assumes "ensure_contents (fs_path p) (Bytes data) mode usr grp s = Inr (changed, s')"
  shows "(up_to_date p data mode usr grp s \<and> \<not> changed \<and> s' = s)
       \<or> (\<not> up_to_date p data mode usr grp s
            \<and> mkdir_and_write (fs_path p) data mode usr grp s = Inr (changed, s'))"
proof (cases "up_to_date p data mode usr grp s")
  case True
  then show ?thesis using assms up_to_date_ensure_contents by fastforce
next
  case False
  then have "ensure_contents (fs_path p) (Bytes data) mode usr grp s
      = mkdir_and_write (fs_path p) data mode usr grp s
    \<or> (\<exists>e. ensure_contents (fs_path p) (Bytes data) mode usr grp s = Inl e)"
    by (auto simp: up_to_date_def ensure_contents_def fs_path_def fs_get_fileinfo_def
        fs_read_bytes_def split: option.splits node.splits)
  then show ?thesis using assms False by auto
qed

lemma ensure_contents_demo:
  "ensure_contents (fs_path motd) (Bytes [104, 105]) 384 (Some ''ubuntu'') None demo
     = Inr (True, demo_written)"
  by code_simp

text \<open>
  With a mode that has bits beyond the permission bits, here \<^verbatim>\<open>0o100644\<close>, the file never
  reports the mode it was given, and every call writes again.
\<close>

lemma ensure_contents_mode_beyond_bits:
  "ensure_contents (fs_path motd) (Bytes [104, 105]) 33188 None None demo = Inr (True, demo)"
  by code_simp

text \<open>
  C1, as the code has it: the first of two calls with the same arguments does not always
  return \<^verbatim>\<open>True\<close>. On the example machine \<^verbatim>\<open>/etc/motd\<close> has mode \<^verbatim>\<open>0o644\<close> and content \<^verbatim>\<open>b'hi'\<close>
  already, and the first call returns \<^verbatim>\<open>False\<close>.
\<close>

theorem ensure_contents_first_call_counterexample:
  "ensure_contents (fs_path motd) (Bytes [104, 105]) 420 None None demo = Inr (False, demo)"
  by code_simp

text \<open>
  C1, amended: for a mode within the read, write and execute bits (\<^verbatim>\<open>0\<close> to \<^verbatim>\<open>0o777\<close>), when
  the first call returns, it returns \<^verbatim>\<open>True\<close> exactly if the path was not up to date before; a
  second call with the same arguments on the resulting state returns \<^verbatim>\<open>False\<close> and leaves the
  state as it is, and reading the path then returns exactly the content. After the first call
  the path is up to date: a file with the mode, the owner and group where given, and the
  content. The set-user-id, set-group-id and sticky bits are left out, since whether a file
  keeps them depends on the backend and on the caller; a mode with bits beyond \<^verbatim>\<open>0o7777\<close> is
  never reported back, as the lemma before shows.
\<close>

theorem ensure_contents_twice:
  assumes "ensure_contents (fs_path p) (Bytes data) mode usr grp s = Inr (changed, s')"
    and "0 \<le> mode" and "mode \<le> 511"
  shows "changed = (\<not> up_to_date p data mode usr grp s)
    \<and> up_to_date p data mode usr grp s'
    \<and> ensure_contents (fs_path p) (Bytes data) mode usr grp s' = Inr (False, s')
    \<and> fs_read_bytes p s' = Inr data"
proof -
  have "up_to_date p data mode usr grp s'"
    and "changed = (\<not> up_to_date p data mode usr grp s)"
    using ensure_contents_fs_cases [OF assms(1)] mkdir_and_write_fs
      S_IMODE_bits [OF assms(2,3)] by blast+
  then show ?thesis
    by (simp add: up_to_date_ensure_contents up_to_date_read)
qed

theorem ensure_contents_twice_witness:
  "ensure_contents (fs_path motd) (Bytes [104, 105]) 384 (Some ''ubuntu'') None demo
     = Inr (True, demo_written)
   \<and> \<not> up_to_date motd [104, 105] 384 (Some ''ubuntu'') None demo
   \<and> up_to_date motd [104, 105] 384 (Some ''ubuntu'') None demo_written
   \<and> ensure_contents (fs_path motd) (Bytes [104, 105]) 384 (Some ''ubuntu'') None demo_written
     = Inr (False, demo_written)
   \<and> fs_read_bytes motd demo_written = Inr [104, 105]"
proof -
  have "(0::int) \<le> 384" and "(384::int) \<le> 511"
    by simp_all
  then show ?thesis
    using ensure_contents_demo ensure_contents_twice [OF ensure_contents_demo] by simp
qed

section \<open>\<^verbatim>\<open>remove_path\<close>\<close>


lemma remove_container_path_result:
  "remove_container_path cp recursive s =
     (case cp_container cp s (cp_path cp) recursive of
        Inr s' \<Rightarrow> Inr s'
      | Inl e \<Rightarrow>
          Inl (case e of
                 PathError kind message \<Rightarrow>
                   if kind = ''generic-file-error'' \<and> sublist ''directory not empty'' message
                   then DirectoryNotEmptyError (cp_repr cp) (Some e)
                   else if kind = ''not-found'' then FileNotFoundError (cp_repr cp) (Some e)
                   else if kind = ''permission-denied''
                   then PermissionError (cp_repr cp) (Some e)
                   else PebbleError e
               | _ \<Rightarrow> PebbleError e))"
  by (auto simp: remove_container_path_def raise_if_matches_directory_not_empty_def
      raise_if_matches_file_not_found_def raise_file_not_found_def
      raise_if_matches_permission_def Permission_matches_def Let_def
      split: sum.splits pebble_error.splits)




text \<open>
  C10: with \<^verbatim>\<open>recursive\<close>, a local path that is a file is unlinked: the call succeeds, the
  path is gone and every other path is as before.
\<close>

theorem remove_path_recursive_file:
  assumes "node_at s p = Some (File info data)"
  shows "remove_path (LocalPath p) True s = Inr (remove_entry p s)
    \<and> node_at (remove_entry p s) p = None
    \<and> (\<forall>q. q \<noteq> p \<longrightarrow> node_at (remove_entry p s) q = node_at s q)"
  using assms
  by (simp add: remove_path_def remove_pathlib_path_def path_exists_def path_is_dir_def
      path_unlink_def node_at_remove_entry)

theorem remove_path_recursive_file_witness:
  "remove_path (LocalPath motd) True demo = Inr (remove_entry motd demo)
   \<and> node_at (remove_entry motd demo) motd = None
   \<and> node_at (remove_entry motd demo) [''etc''] = Some (Dir root_info)"
proof -
  have "[''etc''] \<noteq> motd" by (simp add: motd_def)
  then show ?thesis
    using remove_path_recursive_file [OF node_at_demo(2)] node_at_demo(4) by simp
qed

text \<open>
  C2, as the code has it: the remote adapter does not suppress a not-found error of the
  protocol when \<^verbatim>\<open>recursive\<close> is true. On a container whose remove-path call reports the path as
  missing, \<^verbatim>\<open>remove_path\<close> with \<^verbatim>\<open>recursive=True\<close> raises \<^verbatim>\<open>FileNotFoundError\<close>.
\<close>

theorem remove_path_recursive_counterexample:
  "remove_path
     (ContainerPath
        \<lparr>cp_container = missing_container, cp_path = [''nope''],
         cp_repr = ''ContainerPath(/nope)''\<rparr>)
     True demo
   = Inl (FileNotFoundError ''ContainerPath(/nope)''
            (Some (PathError ''not-found'' ''remove /nope: no such file or directory'')))"
  by (simp add: remove_path_def remove_container_path_result missing_container_def posix_def)

text \<open>
  C2, amended: with \<^verbatim>\<open>recursive\<close>, removing a missing local path succeeds and changes nothing.
  On the remote backend the adapter succeeds whenever the remove-path call of the protocol
  does, as the call of the Pebble agent does with \<^verbatim>\<open>recursive\<close> for any path, missing or not,
  changing nothing when there is nothing at or under the path; a not-found error of the
  protocol is not suppressed but raised as \<^verbatim>\<open>FileNotFoundError\<close> from it.
\<close>

theorem remove_path_recursive_absent:
  "(node_at s p = None \<longrightarrow> remove_path (LocalPath p) True s = Inr s)
   \<and> (cp_container cp s (cp_path cp) True = Inr s' \<longrightarrow>
        remove_path (ContainerPath cp) True s = Inr s')
   \<and> (cp_container cp s (cp_path cp) True = Inl (PathError ''not-found'' m) \<longrightarrow>
        remove_path (ContainerPath cp) True s =
          Inl (FileNotFoundError (cp_repr cp) (Some (PathError ''not-found'' m))))
   \<and> remove_path (ContainerPath (pebble_path p)) True s = Inr (remove_subtree p s)
   \<and> ((\<forall>(q, n) \<in> set (files s). \<not> prefix p q) \<longrightarrow> remove_subtree p s = s)"
proof -
  have "remove_subtree p s = s" if "\<forall>(q, n) \<in> set (files s). \<not> prefix p q"
  proof -
    have "filter (\<lambda>(q, n). \<not> prefix p q) (files s) = files s"
      using that by (simp add: filter_id_conv case_prod_unfold)
    then show ?thesis
      by (simp add: remove_subtree_def)
  qed
  then show ?thesis
    by (simp add: remove_path_def remove_pathlib_path_def path_exists_def
        remove_container_path_result pebble_path_def pebble_remove_path_def)
qed

theorem remove_path_recursive_absent_witness:
  "remove_path (LocalPath [''nope'']) True demo = Inr demo
   \<and> remove_path (ContainerPath (pebble_path [''nope''])) True demo = Inr demo
   \<and> remove_subtree [''nope''] demo = demo"
proof -
  have 1: "cp_container (pebble_path [''nope'']) demo (cp_path (pebble_path [''nope''])) True
      = Inr demo"
    by code_simp
  have 2: "\<forall>(q, n) \<in> set (files demo). \<not> prefix [''nope''] q"
    by (simp add: demo_def)
  note absent =
    remove_path_recursive_absent
      [where s = demo and p = "[''nope'']" and cp = "pebble_path [''nope'']" and s' = demo
         and m = "[]"]
  have "remove_path (LocalPath [''nope'']) True demo = Inr demo"
    using node_at_demo(1) absent by blast
  moreover have "remove_path (ContainerPath (pebble_path [''nope''])) True demo = Inr demo"
    using 1 absent by blast
  moreover have "remove_subtree [''nope''] demo = demo"
    using 2 absent by blast
  ultimately show ?thesis
    by blast
qed

text \<open>
  C6, as the code has it: a protocol error can reach the caller of the remote remove as it
  is. A \<^verbatim>\<open>PathError\<close> that no matcher takes is raised again by the final \<^verbatim>\<open>raise\<close>, and an error
  that is not a \<^verbatim>\<open>PathError\<close> is not caught at all.
\<close>

theorem remove_container_path_counterexample:
  "remove_container_path
     \<lparr>cp_container = busy_container, cp_path = [''srv''], cp_repr = ''ContainerPath(/srv)''\<rparr>
     False demo
   = Inl (PebbleError
            (PathError ''generic-file-error'' ''remove /srv: device or resource busy''))
   \<and> remove_container_path
     \<lparr>cp_container = failing_container, cp_path = [''srv''], cp_repr = ''ContainerPath(/srv)''\<rparr>
     False demo
   = Inl (PebbleError (APIError 500 ''internal server error''))"
proof -
  have "\<not> sublist ''directory not empty'' ''remove /srv: device or resource busy''"
    by code_simp
  then show ?thesis
    by (simp add: remove_container_path_result busy_container_def failing_container_def
        posix_def)
qed

text \<open>
  C6, amended: when the remove-path call of the protocol fails with a \<^verbatim>\<open>PathError\<close> that is
  directory-not-empty, not-found or permission-denied, the caller gets the exception of that
  kind, raised from the protocol error; any other \<^verbatim>\<open>PathError\<close> and any protocol error of
  another class reaches the caller unchanged.
\<close>

theorem remove_container_path_errors:
  assumes "cp_container cp s (cp_path cp) recursive = Inl e"
  shows "remove_container_path cp recursive s =
     Inl (case e of
            PathError kind message \<Rightarrow>
              if kind = ''generic-file-error'' \<and> sublist ''directory not empty'' message
              then DirectoryNotEmptyError (cp_repr cp) (Some e)
              else if kind = ''not-found'' then FileNotFoundError (cp_repr cp) (Some e)
              else if kind = ''permission-denied'' then PermissionError (cp_repr cp) (Some e)
              else PebbleError e
          | _ \<Rightarrow> PebbleError e)"
  using assms by (simp add: remove_container_path_result)

theorem remove_container_path_errors_witness:
  "remove_container_path (pebble_path [''nope'']) False demo
   = Inl (FileNotFoundError ''ContainerPath(/nope)''
            (Some (PathError ''not-found'' ''remove /nope: no such file or directory'')))"
proof -
  have 1: "cp_container (pebble_path [''nope'']) demo (cp_path (pebble_path [''nope''])) False
      = Inl (PathError ''not-found'' ''remove /nope: no such file or directory'')"
    by code_simp
  have 2: "cp_repr (pebble_path [''nope'']) = ''ContainerPath(/nope)''"
    by code_simp
  show ?thesis
    using 2 remove_container_path_errors [OF 1] by simp
qed

section \<open>\<^verbatim>\<open>with_suffix\<close>\<close>

lemma before_last_dot_append:
  assumes "CHR ''.'' \<notin> set ys"
  shows "before_last_dot (xs @ CHR ''.'' # ys) = xs"
proof -
  have "dropWhile (\<lambda>c. c \<noteq> CHR ''.'') (rev ys @ CHR ''.'' # rev xs) = CHR ''.'' # rev xs"
    using assms by (subst dropWhile_append2) auto
  then show ?thesis
    by (simp add: before_last_dot_def)
qed

text \<open>
  C8: whatever the name, \<^verbatim>\<open>with_suffix('.bak')\<close> followed by \<^verbatim>\<open>with_suffix('')\<close> succeeds and
  gives the name without its last suffix, that is its stem. An empty argument removes the
  suffix, an argument that starts with \<^verbatim>\<open>'.'\<close> takes its place (or is appended to a name
  without suffix), and the name is its stem followed by its suffix.
\<close>

theorem with_suffix_round_trip:
  "(\<exists>name'. with_suffix name ''.bak'' = Inr name' \<and> with_suffix name' '''' = Inr (stem name))
   \<and> with_suffix name '''' = Inr (stem name)
   \<and> with_suffix name (CHR ''.'' # rest) = Inr (stem name @ CHR ''.'' # rest)
   \<and> stem name @ suffix_of name = name"
proof -
  have 1: "with_suffix name ''.bak'' = Inr (stem name @ ''.bak'')"
    by (simp add: with_suffix_def stem_def has_suffix_def)
  have "before_last_dot (stem name @ ''.bak'') = stem name"
    using before_last_dot_append [of "''bak''" "stem name"] by simp
  then have 2: "with_suffix (stem name @ ''.bak'') '''' = Inr (stem name)"
    by (simp add: with_suffix_def)
  have 3: "with_suffix name suff = Inr (stem name @ suff)"
    if "suff = [] \<or> hd suff = CHR ''.''" for suff
    using that by (auto simp: with_suffix_def stem_def has_suffix_def)
  have 4: "stem name @ suffix_of name = name"
  proof (cases "has_suffix name")
    case True
    then obtain xs ys where "name = xs @ CHR ''.'' # ys" "CHR ''.'' \<notin> set ys"
      unfolding has_suffix_def by (meson split_list_last)
    then show ?thesis
      using True by (simp add: suffix_of_def stem_def before_last_dot_append)
  next
    case False
    then show ?thesis by (simp add: suffix_of_def stem_def)
  qed
  show ?thesis using 1 2 3 4 by simp
qed

theorem with_suffix_round_trip_witness:
  "with_suffix ''notes.tar.gz'' ''.bak'' = Inr ''notes.tar.bak''
   \<and> with_suffix ''notes.tar.bak'' '''' = Inr ''notes.tar''"
proof -
  have 1: "with_suffix ''notes.tar.gz'' ''.bak'' = Inr ''notes.tar.bak''"
    by code_simp
  have 2: "stem ''notes.tar.gz'' = ''notes.tar''"
    by code_simp
  obtain name' where 3: "with_suffix ''notes.tar.gz'' ''.bak'' = Inr name'"
    and 4: "with_suffix name' '''' = Inr (stem ''notes.tar.gz'')"
    using with_suffix_round_trip [of "''notes.tar.gz''" "[]"] by blast
  have "name' = ''notes.tar.bak''"
    using 1 3 by simp
  then show ?thesis
    using 1 2 4 by simp
qed

end
